theory Spec2Isabelle
  imports Main "HOL-Library.AList"
begin

section \<open>The in-memory chat core (server/controllers/socketHandlers.js)\<close>

text \<open>
  The module keeps five tables: \<open>users\<close> (socket id to user), \<open>socketsByUser\<close>
  (username to the set of its socket ids), \<open>messages\<close> (an array), \<open>typingUsers\<close>
  (socket id to username) and \<open>rooms\<close> (room id to a set of socket ids). Every handler
  is a function from the state before to the state after, paired with the effects it
  performs, in program order.

  JavaScript objects used as dictionaries are maps here; where the source iterates over
  one (\<open>for .. in users\<close>, \<open>Object.values(typingUsers)\<close>) it is an association list in
  insertion order. Keys are taken to differ from the members a JavaScript object inherits
  from \<open>Object.prototype\<close>. A JavaScript \<open>Set\<close> that the source iterates over is a
  duplicate-free list in insertion order. The calls to the logger are left out: they touch
  neither the tables nor any client.

  Delivery is socket.io's: \<open>io.emit\<close> reaches every connected socket, \<open>io.to(r).emit\<close>
  every socket that has joined the room \<open>r\<close>, \<open>socket.emit\<close> the socket itself. The
  library's own room table is the field \<open>sio_rooms\<close>: \<open>socket.join\<close> and
  \<open>socket.leave\<close> write it, a socket is put into the room named by its own id when it
  connects and is taken out of every room when it disconnects.
\<close>

type_synonym sid = string

record user =
  username :: string
  uid :: sid

record message =
  msg_id :: string
  msg_text :: "string option"
  fileUrl :: "string option"
  sender :: string
  senderId :: sid
  roomId :: string
  isPrivate :: bool
  toUser :: "string option"
  timestamp :: string
  readBy :: "string list"
  reactions :: "(string \<times> string list) list"

record state =
  users :: "(sid \<times> user) list"
  socketsByUser :: "string \<rightharpoonup> sid list"
  messages :: "message list"
  typingUsers :: "(sid \<times> string) list"
  rooms :: "string \<rightharpoonup> sid set"
  sio_sockets :: "sid set"
  sio_rooms :: "string \<Rightarrow> sid set"

datatype notification =
  NJoin string
  | NRoomJoin string sid
  | NMessage string string
  | NPrivate string string

datatype payload =
  MessageP message
  | UserP string sid
  | UserListP "user list"
  | NotifyP notification
  | RoomP string sid
  | TypingP "string list"
  | ReadP string string
  | ReactionP string string string
  | AckErrorP string
  | AckOkP string "string option"
  | AckMessagesP "message list"

text \<open>
  The targets of an emission: \<open>io.emit\<close>, \<open>io.to(r).emit\<close> and \<open>socket.emit\<close>. An
  effect is the storing of a message (\<open>Persist\<close>, at the point where the handler has
  pushed the message or \<open>Message.create\<close> has returned it), an emitted event with its
  name and payload, the call of the acknowledgement callback of a socket, or a line on the
  server's console.
\<close>

datatype target = Broadcast | ToRoom string | ToSelf sid

datatype ('m, 'p) effect =
  Persist 'm
  | Emit target string 'p
  | Ack sid 'p
  | Log string

type_synonym effects = "(message, payload) effect list"

definition init :: state where
  "init = \<lparr>users = [], socketsByUser = Map.empty, messages = [], typingUsers = [],
     rooms = [''global'' \<mapsto> {}], sio_sockets = {}, sio_rooms = (\<lambda>r. {})\<rparr>"

subsection \<open>Delivery\<close>

fun recipients :: "state \<Rightarrow> target \<Rightarrow> sid set" where
  "recipients st Broadcast = sio_sockets st"
| "recipients st (ToRoom r) = sio_rooms st r"
| "recipients st (ToSelf s) = {s}"

text \<open>The events named \<open>n\<close> that the connection \<open>c\<close> receives from a list of effects.\<close>

fun received :: "state \<Rightarrow> string \<Rightarrow> sid \<Rightarrow> ('m, 'p) effect list \<Rightarrow> 'p list" where
  "received st n c [] = []"
| "received st n c (Emit t n' p # es) =
     (if n' = n \<and> c \<in> recipients st t then p # received st n c es else received st n c es)"
| "received st n c (e # es) = received st n c es"

subsection \<open>Helpers\<close>

definition set_add :: "'a \<Rightarrow> 'a list \<Rightarrow> 'a list" where
  "set_add x xs = (if x \<in> set xs then xs else xs @ [x])"

definition sockets_of :: "state \<Rightarrow> string \<Rightarrow> sid list" where
  "sockets_of st name = (case socketsByUser st name of None \<Rightarrow> [] | Some l \<Rightarrow> l)"

definition room_members :: "state \<Rightarrow> string \<Rightarrow> sid set" where
  "room_members st r = (case rooms st r of None \<Rightarrow> {} | Some S \<Rightarrow> S)"

definition socket_join :: "sid \<Rightarrow> string \<Rightarrow> state \<Rightarrow> state" where
  "socket_join s r st = st\<lparr>sio_rooms := (sio_rooms st)(r := insert s (sio_rooms st r))\<rparr>"

definition socket_leave :: "sid \<Rightarrow> string \<Rightarrow> state \<Rightarrow> state" where
  "socket_leave s r st = st\<lparr>sio_rooms := (sio_rooms st)(r := sio_rooms st r - {s})\<rparr>"

fun getUserList_from :: "string list \<Rightarrow> (sid \<times> user) list \<Rightarrow> user list" where
  "getUserList_from seen [] = []"
| "getUserList_from seen ((s, u) # rest) =
     (if username u \<in> set seen then getUserList_from seen rest
      else \<lparr>username = username u, uid = uid u\<rparr> # getUserList_from (username u # seen) rest)"

definition getUserList :: "state \<Rightarrow> user list" where
  "getUserList st = getUserList_from [] (users st)"

subsection \<open>Registration and rooms\<close>

text \<open>
  \<open>rooms.global\<close> is created when the module loads and no handler removes a key of
  \<open>rooms\<close>; \<open>registerUser\<close> reads it through \<open>room_members\<close>.
\<close>

definition registerUser :: "state \<Rightarrow> sid \<Rightarrow> string \<Rightarrow> state \<times> effects" where
  "registerUser st s name =
     (let st1 = st\<lparr>users := AList.update s \<lparr>username = name, uid = s\<rparr> (users st)\<rparr>;
          st2 = st1\<lparr>socketsByUser := (socketsByUser st1)(name \<mapsto> set_add s (sockets_of st1 name))\<rparr>;
          st3 = socket_join s ''global'' st2;
          st4 = st3\<lparr>rooms := (rooms st3)(''global'' \<mapsto> insert s (room_members st3 ''global''))\<rparr>
      in (st4,
          [Emit Broadcast ''user_joined'' (UserP name s),
           Emit Broadcast ''user_list'' (UserListP (getUserList st4)),
           Emit Broadcast ''notification'' (NotifyP (NJoin name))]))"

text \<open>
  A new connection: socket.io adds the socket and its own room, then
  \<open>handleSocketConnection\<close> registers the user when the handshake token verifies to a
  payload with a username (\<open>tok\<close> is that username, \<open>None\<close> without a token or with an
  invalid one).
\<close>

definition connect :: "state \<Rightarrow> sid \<Rightarrow> string option \<Rightarrow> state \<times> effects" where
  "connect st s tok =
     (let st1 = socket_join s s (st\<lparr>sio_sockets := insert s (sio_sockets st)\<rparr>)
      in case tok of
           None \<Rightarrow> (st1, [])
         | Some name \<Rightarrow> if name = [] then (st1, []) else registerUser st1 s name)"

definition user_join :: "state \<Rightarrow> sid \<Rightarrow> string \<Rightarrow> state \<times> effects" where
  "user_join st s name = (if name = [] then (st, []) else registerUser st s name)"

definition join_room :: "state \<Rightarrow> sid \<Rightarrow> string \<Rightarrow> state \<times> effects" where
  "join_room st s r =
     (if r = [] then (st, [])
      else
        let st1 = socket_join s r st;
            st2 = st1\<lparr>rooms := (rooms st1)(r \<mapsto> insert s (room_members st1 r))\<rparr>
        in (st2,
            [Emit (ToRoom r) ''room_joined'' (RoomP r s),
             Emit Broadcast ''notification'' (NotifyP (NRoomJoin r s))]))"

definition leave_room :: "state \<Rightarrow> sid \<Rightarrow> string \<Rightarrow> state \<times> effects" where
  "leave_room st s r =
     (if r = [] then (st, [])
      else
        let st1 = socket_leave s r st;
            st2 = (case rooms st1 r of
                     None \<Rightarrow> st1
                   | Some S \<Rightarrow> st1\<lparr>rooms := (rooms st1)(r \<mapsto> S - {s})\<rparr>)
        in (st2, [Emit (ToRoom r) ''room_left'' (RoomP r s)]))"

subsection \<open>Messages\<close>

text \<open>
  \<open>x || null\<close> and \<open>x || 'global'\<close>: a missing field and the empty string are both
  falsy.
\<close>

definition or_null :: "string option \<Rightarrow> string option" where
  "or_null x = (case x of None \<Rightarrow> None | Some s \<Rightarrow> if s = [] then None else Some s)"

definition or_default :: "string option \<Rightarrow> string \<Rightarrow> string" where
  "or_default x d = (case x of None \<Rightarrow> d | Some s \<Rightarrow> if s = [] then d else s)"

text \<open>
  \<open>createMessage\<close> draws the id from the clock and the random generator and the
  timestamp from the clock: both are inputs (\<open>new_id\<close>, \<open>ts\<close>).
\<close>

definition createMessage ::
  "string \<Rightarrow> string \<Rightarrow> string option \<Rightarrow> string \<Rightarrow> sid \<Rightarrow> string \<Rightarrow> bool \<Rightarrow> string option
     \<Rightarrow> string option \<Rightarrow> message" where
  "createMessage new_id ts txt sndr sndrId room priv to furl =
     \<lparr>msg_id = new_id, msg_text = or_null txt, fileUrl = or_null furl, sender = sndr,
      senderId = sndrId, roomId = room, isPrivate = priv, toUser = to, timestamp = ts,
      readBy = [], reactions = []\<rparr>"

record send_payload =
  p_text :: "string option"
  p_roomId :: "string option"
  p_fileUrl :: "string option"

definition ack_with :: "bool \<Rightarrow> sid \<Rightarrow> payload \<Rightarrow> effects" where
  "ack_with has_ack s p = (if has_ack then [Ack s p] else [])"

definition send_message ::
  "state \<Rightarrow> sid \<Rightarrow> send_payload \<Rightarrow> bool \<Rightarrow> string \<Rightarrow> string \<Rightarrow> state \<times> effects" where
  "send_message st s pl has_ack new_id ts =
     (case map_of (users st) s of
        None \<Rightarrow> (st, ack_with has_ack s (AckErrorP ''not_authenticated''))
      | Some u \<Rightarrow>
          let msg = createMessage new_id ts (p_text pl) (username u) s
                      (or_default (p_roomId pl) ''global'') False None (or_null (p_fileUrl pl));
              pushed = messages st @ [msg];
              kept = (if length pushed > 2000 then tl pushed else pushed)
          in (st\<lparr>messages := kept\<rparr>,
              [Persist msg, Emit (ToRoom (roomId msg)) ''receive_message'' (MessageP msg)]
              @ ack_with has_ack s (AckOkP (msg_id msg) (Some (timestamp msg)))
              @ [Emit Broadcast ''notification'' (NotifyP (NMessage (roomId msg) (msg_id msg)))]))"

definition private_message ::
  "state \<Rightarrow> sid \<Rightarrow> string \<Rightarrow> string option \<Rightarrow> string option \<Rightarrow> bool \<Rightarrow> string \<Rightarrow> string
     \<Rightarrow> state \<times> effects" where
  "private_message st s to txt furl has_ack new_id ts =
     (case map_of (users st) s of
        None \<Rightarrow> (st, ack_with has_ack s (AckErrorP ''not_authenticated''))
      | Some from \<Rightarrow>
          let msg = createMessage new_id ts txt (username from) s ''global'' True (Some to)
                      (or_null furl);
              recSockets = sockets_of st to
          in (st\<lparr>messages := messages st @ [msg]\<rparr>,
              [Persist msg]
              @ map (\<lambda>r. Emit (ToRoom r) ''private_message'' (MessageP msg)) recSockets
              @ [Emit (ToSelf s) ''private_message'' (MessageP msg)]
              @ ack_with has_ack s (AckOkP (msg_id msg) None)
              @ map (\<lambda>r. Emit (ToRoom r) ''notification''
                            (NotifyP (NPrivate (msg_id msg) (username from)))) recSockets))"

subsection \<open>Typing, read receipts, reactions\<close>

definition typing :: "state \<Rightarrow> sid \<Rightarrow> string option \<Rightarrow> bool \<Rightarrow> state \<times> effects" where
  "typing st s room isTyping =
     (case map_of (users st) s of
        None \<Rightarrow> (st, [])
      | Some u \<Rightarrow>
          let tu = (if isTyping then AList.update s (username u) (typingUsers st)
                    else AList.delete s (typingUsers st))
          in (st\<lparr>typingUsers := tu\<rparr>,
              [Emit (ToRoom (case room of None \<Rightarrow> ''global'' | Some r \<Rightarrow> r)) ''typing_users''
                 (TypingP (map snd tu))]))"

text \<open>\<open>messages.find\<close> yields the first message with the id; the handler mutates it in place.\<close>

fun update_first :: "('a \<Rightarrow> bool) \<Rightarrow> ('a \<Rightarrow> 'a) \<Rightarrow> 'a list \<Rightarrow> 'a list" where
  "update_first P f [] = []"
| "update_first P f (x # xs) = (if P x then f x # xs else x # update_first P f xs)"

definition has_id :: "string \<Rightarrow> message \<Rightarrow> bool" where
  "has_id i m = (msg_id m = i)"

definition message_read :: "state \<Rightarrow> string \<Rightarrow> string \<Rightarrow> state \<times> effects" where
  "message_read st messageId uname =
     (case find (has_id messageId) (messages st) of
        None \<Rightarrow> (st, [])
      | Some m \<Rightarrow>
          let st1 = (if uname \<in> set (readBy m) then st
                     else st\<lparr>messages := update_first (has_id messageId)
                            (\<lambda>m. m\<lparr>readBy := readBy m @ [uname]\<rparr>) (messages st)\<rparr>)
          in (st1,
              if isPrivate m
              then map (\<lambda>r. Emit (ToRoom r) ''message_read'' (ReadP messageId uname))
                     (sockets_of st (sender m))
              else [Emit (ToRoom (if roomId m = [] then ''global'' else roomId m))
                      ''message_read'' (ReadP messageId uname)]))"

definition reaction_list :: "message \<Rightarrow> string \<Rightarrow> string list" where
  "reaction_list m reaction =
     (case map_of (reactions m) reaction of None \<Rightarrow> [] | Some l \<Rightarrow> l)"

definition toggle :: "string \<Rightarrow> string \<Rightarrow> message \<Rightarrow> message" where
  "toggle reaction uname m =
     (let l = reaction_list m reaction
      in m\<lparr>reactions := AList.update reaction
              (if uname \<in> set l then remove1 uname l else l @ [uname]) (reactions m)\<rparr>)"

definition message_reaction :: "state \<Rightarrow> string \<Rightarrow> string \<Rightarrow> string \<Rightarrow> state \<times> effects" where
  "message_reaction st messageId reaction uname =
     (case find (has_id messageId) (messages st) of
        None \<Rightarrow> (st, [])
      | Some m \<Rightarrow>
          (st\<lparr>messages := update_first (has_id messageId) (toggle reaction uname) (messages st)\<rparr>,
           if isPrivate m
           then map (\<lambda>r. Emit (ToRoom r) ''message_reaction'' (ReactionP messageId reaction uname))
                  (sockets_of st (case toUser m of None \<Rightarrow> ''null'' | Some t \<Rightarrow> t)
                   @ sockets_of st (sender m))
           else [Emit (ToRoom (roomId m)) ''message_reaction''
                   (ReactionP messageId reaction uname)]))"

subsection \<open>Pagination\<close>

text \<open>\<open>Array.prototype.slice(start, end)\<close> on integers; \<open>None\<close> is an omitted \<open>end\<close>.\<close>

definition js_slice :: "'a list \<Rightarrow> int \<Rightarrow> int option \<Rightarrow> 'a list" where
  "js_slice xs start fin =
     (let n = int (length xs);
          k = (if start < 0 then max (n + start) 0 else min start n);
          e = (case fin of None \<Rightarrow> n
               | Some f \<Rightarrow> if f < 0 then max (n + f) 0 else min f n)
      in take (nat (e - k)) (drop (nat k) xs))"

fun findIndex :: "('a \<Rightarrow> bool) \<Rightarrow> 'a list \<Rightarrow> nat option" where
  "findIndex P [] = None"
| "findIndex P (x # xs) =
     (if P x then Some 0 else map_option Suc (findIndex P xs))"

definition page :: "message list \<Rightarrow> string \<Rightarrow> string option \<Rightarrow> int \<Rightarrow> message list" where
  "page msgs room beforeId limit =
     (let list = filter (\<lambda>m. roomId m = room \<and> \<not> isPrivate m) msgs
      in case or_null beforeId of
           None \<Rightarrow> js_slice list (- limit) None
         | Some b \<Rightarrow>
             (case findIndex (has_id b) list of
                None \<Rightarrow> js_slice list (- limit) None
              | Some idx \<Rightarrow> js_slice list (max 0 (int idx - limit)) (Some (int idx))))"

definition load_older ::
  "state \<Rightarrow> sid \<Rightarrow> string option \<Rightarrow> string option \<Rightarrow> int option \<Rightarrow> bool \<Rightarrow> state \<times> effects" where
  "load_older st s room beforeId limit has_ack =
     (st, ack_with has_ack s
            (AckMessagesP (page (messages st) (case room of None \<Rightarrow> ''global'' | Some r \<Rightarrow> r)
               beforeId (case limit of None \<Rightarrow> 20 | Some l \<Rightarrow> l))))"

subsection \<open>Disconnect\<close>

text \<open>
  socket.io takes the socket out of its rooms and out of the namespace before it fires
  \<open>disconnect\<close>; the handler then clears the module's tables, but only for a socket with
  a registered user.
\<close>

definition sio_close :: "sid \<Rightarrow> state \<Rightarrow> state" where
  "sio_close s st =
     st\<lparr>sio_sockets := sio_sockets st - {s}, sio_rooms := (\<lambda>r. sio_rooms st r - {s})\<rparr>"

definition drop_socket :: "sid \<Rightarrow> string \<Rightarrow> (string \<rightharpoonup> sid list) \<Rightarrow> (string \<rightharpoonup> sid list)" where
  "drop_socket s name sbu =
     (case sbu name of
        None \<Rightarrow> sbu
      | Some l \<Rightarrow> if removeAll s l = [] then sbu(name := None) else sbu(name \<mapsto> removeAll s l))"

definition disconnect :: "state \<Rightarrow> sid \<Rightarrow> state \<times> effects" where
  "disconnect st s =
     (let st0 = sio_close s st
      in case map_of (users st0) s of
           None \<Rightarrow> (st0, [])
         | Some u \<Rightarrow>
             let st1 = st0\<lparr>socketsByUser := drop_socket s (username u) (socketsByUser st0),
                           users := AList.delete s (users st0),
                           typingUsers := AList.delete s (typingUsers st0),
                           rooms := (\<lambda>r. map_option (\<lambda>S. S - {s}) (rooms st0 r))\<rparr>
             in (st1,
                 [Emit Broadcast ''user_left'' (UserP (username u) s),
                  Emit Broadcast ''user_list'' (UserListP (getUserList st1)),
                  Emit Broadcast ''typing_users'' (TypingP (map snd (typingUsers st1)))]))"

subsection \<open>Dispatch\<close>

datatype inbound =
  Connect sid "string option"
  | UserJoin sid string
  | JoinRoom sid string
  | LeaveRoom sid string
  | SendMessage sid send_payload bool string string
  | PrivateMessage sid string "string option" "string option" bool string string
  | Typing sid "string option" bool
  | MessageRead sid string string
  | MessageReaction sid string string string
  | LoadOlder sid "string option" "string option" "int option" bool
  | Disconnect sid

fun step :: "state \<Rightarrow> inbound \<Rightarrow> state \<times> effects" where
  "step st (Connect s tok) = connect st s tok"
| "step st (UserJoin s name) = user_join st s name"
| "step st (JoinRoom s r) = join_room st s r"
| "step st (LeaveRoom s r) = leave_room st s r"
| "step st (SendMessage s pl a i ts) = send_message st s pl a i ts"
| "step st (PrivateMessage s to txt furl a i ts) = private_message st s to txt furl a i ts"
| "step st (Typing s r b) = typing st s r b"
| "step st (MessageRead s i u) = message_read st i u"
| "step st (MessageReaction s i r u) = message_reaction st i r u"
| "step st (LoadOlder s r b l a) = load_older st s r b l a"
| "step st (Disconnect s) = disconnect st s"

fun run :: "state \<Rightarrow> inbound list \<Rightarrow> state" where
  "run st [] = st"
| "run st (e # es) = run (fst (step st e)) es"

section \<open>The store-backed server (server/server.js, server/models/Message.js)\<close>

text \<open>
  This server keeps its messages in the Mongoose model \<open>Message\<close>. The store is the
  collaborator: \<open>Message.create\<close> is a parameter that either fails or returns the saved
  document, and for the read receipts the collection is a map from ids to documents whose
  \<open>findById\<close> and \<open>save\<close> may each fail. \<open>console.error\<close> is the effect \<open>Log\<close>.
\<close>

record new_doc =
  d_message :: string
  d_sender :: string
  d_senderId :: string
  d_to :: "string option"
  d_room :: string
  d_isPrivate :: bool
  d_meta :: string
  d_timestamp :: string
  d_readBy :: "string list"
  d_reactions :: "(string \<times> string) list"

record doc = new_doc +
  d_id :: string

record clerk_user =
  clerkId :: string
  cu_username :: string

record socket2 =
  sock_id :: sid
  sock_user :: "clerk_user option"
  currentRoom :: "string option"

record user2 =
  u2_clerkId :: "string option"
  u2_username :: string
  u2_id :: sid
  u2_room :: string


datatype payload2 = DocP doc | Read2P string string

type_synonym effects2 = "(doc, payload2) effect list"

text \<open>\<open>a || b || .. || d\<close>: the first operand that is neither missing nor empty.\<close>

fun first_truthy :: "string option list \<Rightarrow> string \<Rightarrow> string" where
  "first_truthy [] d = d"
| "first_truthy (x # xs) d =
     (case or_null x of None \<Rightarrow> first_truthy xs d | Some s \<Rightarrow> s)"


definition senderIdent :: "socket2 \<Rightarrow> string" where
  "senderIdent sock = first_truthy [map_option clerkId (sock_user sock)] (sock_id sock)"



definition message_read2 ::
  "(string \<rightharpoonup> doc) \<Rightarrow> socket2 \<Rightarrow> string \<Rightarrow> bool \<Rightarrow> bool \<Rightarrow> (string \<rightharpoonup> doc) \<times> effects2" where
  "message_read2 db sock messageId find_ok save_ok =
     (if \<not> find_ok then (db, [Log ''message_read error''])
      else case db messageId of
             None \<Rightarrow> (db, [])
           | Some msg \<Rightarrow>
               let userId = senderIdent sock
               in if userId \<in> set (d_readBy msg) then (db, [])
                  else if save_ok
                  then (db(messageId \<mapsto> msg\<lparr>d_readBy := d_readBy msg @ [userId]\<rparr>),
                        [Emit Broadcast ''message_read'' (Read2P messageId userId)])
                  else (db, [Log ''message_read error'']))"

section \<open>Notions of the specification\<close>

subsection \<open>Join and leave on one room and one connection\<close>





subsection \<open>Example states\<close>

definition chat :: state where
  "chat = run init [Connect ''a1'' None, UserJoin ''a1'' ''alice'',
                    Connect ''b1'' None, UserJoin ''b1'' ''bob'',
                    JoinRoom ''a1'' ''general'']"

definition hi :: send_payload where
  "hi = \<lparr>p_text = Some ''hi'', p_roomId = Some ''general'', p_fileUrl = None\<rparr>"

definition chat3 :: state where
  "chat3 = run init [Connect ''a1'' None, UserJoin ''a1'' ''alice'',
                     Connect ''a2'' None, UserJoin ''a2'' ''alice'',
                     Connect ''c1'' None, UserJoin ''c1'' ''carol'',
                     Connect ''c2'' None, UserJoin ''c2'' ''carol'',
                     Connect ''b1'' None, UserJoin ''b1'' ''bob'']"

definition overheard :: state where
  "overheard = run chat3 [Connect ''e1'' None, JoinRoom ''e1'' ''c1'']"


definition typing1 :: state where
  "typing1 = run init [Connect ''a1'' None, UserJoin ''a1'' ''alice'', JoinRoom ''a1'' ''a'',
                       Connect ''b1'' None, UserJoin ''b1'' ''bob'', JoinRoom ''b1'' ''b'',
                       Typing ''a1'' (Some ''a'') True]"

subsection \<open>The message collection\<close>




text \<open>
  A store filled by the connection \<open>a1\<close>: the \<open>i\<close>-th send has the id of \<open>i + 1\<close>
  letters \<open>x\<close>.
\<close>

definition old_send :: "nat \<Rightarrow> inbound" where
  "old_send i = SendMessage ''a1'' hi True (replicate (Suc i) (CHR ''x'')) ''t0''"

definition old_message :: "nat \<Rightarrow> message" where
  "old_message i =
     \<lparr>msg_id = replicate (Suc i) (CHR ''x''), msg_text = Some ''hi'', fileUrl = None,
      sender = ''alice'', senderId = ''a1'', roomId = ''general'', isPrivate = False,
      toUser = None, timestamp = ''t0'', readBy = [], reactions = []\<rparr>"



subsection \<open>Persistence before fan-out\<close>




text \<open>The effects that reach a client: an emitted event or an acknowledgement.\<close>

fun reaches_client :: "('m, 'p) effect \<Rightarrow> bool" where
  "reaches_client (Emit t n p) = True"
| "reaches_client (Ack s p) = True"
| "reaches_client e = False"



definition guest :: socket2 where
  "guest = \<lparr>sock_id = ''s1'', sock_user = None, currentRoom = None\<rparr>"


subsection \<open>Read receipts and reactions\<close>

definition sent :: state where
  "sent = run chat [SendMessage ''a1'' hi True ''m1'' ''t1'']"

definition read_once :: state where
  "read_once = fst (message_read sent ''m1'' ''bob'')"

definition stored_doc :: doc where
  "stored_doc = \<lparr>d_message = ''hi'', d_sender = ''alice'', d_senderId = ''a1'', d_to = None,
     d_room = ''general'', d_isPrivate = False, d_meta = ''{}'', d_timestamp = ''t1'',
     d_readBy = [], d_reactions = [], d_id = ''65f0''\<rparr>"





subsection \<open>Pages of history\<close>

definition three :: state where
  "three = run chat (map old_send [0..<3])"

text \<open>The room's history, and the position of the cursor in it when the request has one that is found.\<close>

definition history :: "message list \<Rightarrow> string \<Rightarrow> message list" where
  "history msgs room = filter (\<lambda>m. roomId m = room \<and> \<not> isPrivate m) msgs"

definition cursor_index :: "message list \<Rightarrow> string option \<Rightarrow> nat option" where
  "cursor_index list beforeId =
     (case or_null beforeId of None \<Rightarrow> None | Some b \<Rightarrow> findIndex (has_id b) list)"

section \<open>Properties\<close>

subsection \<open>Room membership under join and leave\<close>








text \<open>A join or a leave with an empty room id is ignored: the handlers return at once.\<close>

lemma empty_room_id_ignored:
  "join_room st s [] = (st, [])" "leave_room st s [] = (st, [])"
  by (simp_all add: join_room_def leave_room_def)

text \<open>A join of one connection leaves the membership of every other connection as it is.\<close>

lemma join_room_others:
  "c \<noteq> s \<Longrightarrow> (c \<in> sio_rooms (fst (join_room st s r)) r') = (c \<in> sio_rooms st r')"
  by (simp add: join_room_def socket_join_def Let_def)



subsection \<open>Fan-out of room messages\<close>

lemma received_append:
  "received st n c (xs @ ys) = received st n c xs @ received st n c ys"
  by (induction xs rule: received.induct) simp_all

lemma received_ack_with: "received st n c (ack_with a s p) = []"
  by (simp add: ack_with_def)

lemma last_tl_snoc: "1999 < length xs \<Longrightarrow> last (tl (xs @ [x])) = x"
  by (cases xs) simp_all

lemma send_message_last:
  assumes "map_of (users st) s = Some u"
  shows "last (messages (fst (send_message st s pl a new_id ts)))
         = createMessage new_id ts (p_text pl) (username u) s
             (or_default (p_roomId pl) ''global'') False None (or_null (p_fileUrl pl))"
  using assms by (simp add: send_message_def Let_def last_tl_snoc)

lemma send_message_effects:
  assumes "map_of (users st) s = Some u"
  shows "snd (send_message st s pl a new_id ts)
         = (let msg = last (messages (fst (send_message st s pl a new_id ts)))
            in [Persist msg, Emit (ToRoom (roomId msg)) ''receive_message'' (MessageP msg)]
               @ ack_with a s (AckOkP (msg_id msg) (Some (timestamp msg)))
               @ [Emit Broadcast ''notification'' (NotifyP (NMessage (roomId msg) (msg_id msg)))])"
  unfolding send_message_last [OF assms]
  using assms by (simp add: send_message_def Let_def)

lemma send_message_sio:
  "sio_rooms (fst (send_message st s pl a new_id ts)) = sio_rooms st"
  by (simp add: send_message_def Let_def split: option.splits)

text \<open>
  Claim C2. When a registered connection sends a room message, the message that is stored
  carries the assigned id and timestamp, every connection that is a member of the
  message's room at that moment (the sender's connection too, when it is a member)
  receives exactly one \<open>receive_message\<close> with that message, and every other
  connection receives none.
\<close>

theorem room_message_fanout:
  assumes "map_of (users st) s = Some u"
  shows "let st' = fst (send_message st s pl a new_id ts);
             evs = snd (send_message st s pl a new_id ts);
             m = last (messages st')
         in msg_id m = new_id \<and> timestamp m = ts \<and> sender m = username u
            \<and> roomId m = or_default (p_roomId pl) ''global''
            \<and> (\<forall>c. received st' ''receive_message'' c evs
                      = (if c \<in> sio_rooms st (roomId m) then [MessageP m] else []))"
  unfolding send_message_effects [OF assms]
  by (simp add: send_message_last [OF assms] Let_def received_append received_ack_with
        send_message_sio createMessage_def)

lemmas chat_defs = chat_def init_def connect_def user_join_def registerUser_def join_room_def
  socket_join_def set_add_def sockets_of_def room_members_def getUserList_def Let_def

lemma chat_users: "map_of (users chat) ''a1'' = Some \<lparr>username = ''alice'', uid = ''a1''\<rparr>"
  by (simp add: chat_defs)

lemma chat_general: "sio_rooms chat ''general'' = {''a1''}"
  by (simp add: chat_defs)

theorem room_message_fanout_witness:
  "map_of (users chat) ''a1'' = Some \<lparr>username = ''alice'', uid = ''a1''\<rparr>
   \<and> (let st' = fst (send_message chat ''a1'' hi True ''m1'' ''t1'');
           evs = snd (send_message chat ''a1'' hi True ''m1'' ''t1'');
           m = last (messages st')
       in msg_id m = ''m1'' \<and> timestamp m = ''t1'' \<and> sender m = ''alice''
          \<and> roomId m = ''general''
          \<and> received st' ''receive_message'' ''a1'' evs = [MessageP m]
          \<and> received st' ''receive_message'' ''b1'' evs = [])"
proof -
  have "or_default (p_roomId hi) ''global'' = ''general''"
    by (simp add: hi_def or_default_def)
  then show ?thesis
    using room_message_fanout [OF chat_users, of hi True "''m1''" "''t1''"] chat_users chat_general
    by (simp add: Let_def)
qed

subsection \<open>Fan-out of private messages\<close>

lemma received_map_room:
  "received st n c (map (\<lambda>r. Emit (ToRoom r) n' p) ts)
   = (if n' = n then replicate (length (filter (\<lambda>t. c \<in> sio_rooms st t) ts)) p else [])"
  by (induction ts) auto


lemma private_message_last:
  assumes "map_of (users st) s = Some u"
  shows "last (messages (fst (private_message st s to txt furl a new_id ts)))
         = createMessage new_id ts txt (username u) s ''global'' True (Some to) (or_null furl)"
  using assms by (simp add: private_message_def Let_def)

lemma private_message_effects:
  assumes "map_of (users st) s = Some u"
  shows "snd (private_message st s to txt furl a new_id ts)
         = (let msg = last (messages (fst (private_message st s to txt furl a new_id ts)))
            in [Persist msg]
               @ map (\<lambda>r. Emit (ToRoom r) ''private_message'' (MessageP msg)) (sockets_of st to)
               @ [Emit (ToSelf s) ''private_message'' (MessageP msg)]
               @ ack_with a s (AckOkP (msg_id msg) None)
               @ map (\<lambda>r. Emit (ToRoom r) ''notification''
                             (NotifyP (NPrivate (msg_id msg) (username u)))) (sockets_of st to))"
  unfolding private_message_last [OF assms]
  using assms by (simp add: private_message_def Let_def)

lemma private_message_sio:
  "sio_rooms (fst (private_message st s to txt furl a new_id ts)) = sio_rooms st"
  by (simp add: private_message_def Let_def split: option.splits)

text \<open>The number of copies in general: one for each target room the connection has joined, and one more for the sending socket.\<close>

lemma private_message_copies:
  assumes "map_of (users st) s = Some u"
  shows "received (fst (private_message st s to txt furl a new_id ts)) ''private_message'' c
           (snd (private_message st s to txt furl a new_id ts))
         = replicate (length (filter (\<lambda>t. c \<in> sio_rooms st t) (sockets_of st to))
                      + (if c = s then 1 else 0))
             (MessageP (last (messages (fst (private_message st s to txt furl a new_id ts)))))"
  unfolding private_message_effects [OF assms]
  by (simp add: Let_def received_append received_ack_with received_map_room private_message_sio
        replicate_add)


lemma chat3_users: "map_of (users chat3) ''a1'' = Some \<lparr>username = ''alice'', uid = ''a1''\<rparr>"
  by (simp add: chat3_def chat_defs)

lemma chat3_sockets:
  "sockets_of chat3 ''carol'' = [''c1'', ''c2'']" "sockets_of chat3 ''alice'' = [''a1'', ''a2'']"
  by (simp_all add: chat3_def chat_defs)




text \<open>
  The two side conditions of the amended claim are needed. A connection that has joined the
  room named after a target's connection id receives the private message as well; and a
  sending connection that is listed for the target receives two copies.
\<close>

lemma private_message_side_conditions:
  "length (received (fst (private_message overheard ''a1'' ''carol'' (Some ''hi'') None True ''m1'' ''t1''))
        ''private_message'' ''e1''
        (snd (private_message overheard ''a1'' ''carol'' (Some ''hi'') None True ''m1'' ''t1''))) = 1"
  "length (received (fst (private_message chat3 ''a1'' ''alice'' (Some ''hi'') None True ''m1'' ''t1''))
        ''private_message'' ''a1''
        (snd (private_message chat3 ''a1'' ''alice'' (Some ''hi'') None True ''m1'' ''t1''))) = 2"
proof -
  have u: "map_of (users overheard) ''a1'' = Some \<lparr>username = ''alice'', uid = ''a1''\<rparr>"
    by (simp add: overheard_def chat3_def chat_defs)
  have s: "sockets_of overheard ''carol'' = [''c1'', ''c2'']"
    by (simp add: overheard_def chat3_def chat_defs)
  have r: "sio_rooms overheard ''c1'' = {''c1'', ''e1''}" "sio_rooms overheard ''c2'' = {''c2''}"
    by (auto simp add: overheard_def chat3_def chat_defs)
  show "length (received (fst (private_message overheard ''a1'' ''carol'' (Some ''hi'') None True ''m1'' ''t1''))
        ''private_message'' ''e1''
        (snd (private_message overheard ''a1'' ''carol'' (Some ''hi'') None True ''m1'' ''t1''))) = 1"
    by (simp add: private_message_copies [OF u] s r)
  have r3: "sio_rooms chat3 ''a1'' = {''a1''}" "sio_rooms chat3 ''a2'' = {''a2''}"
    by (simp_all add: chat3_def chat_defs)
  show "length (received (fst (private_message chat3 ''a1'' ''alice'' (Some ''hi'') None True ''m1'' ''t1''))
        ''private_message'' ''a1''
        (snd (private_message chat3 ''a1'' ''alice'' (Some ''hi'') None True ''m1'' ''t1''))) = 2"
    by (simp add: private_message_copies [OF chat3_users] chat3_sockets r3)
qed

subsection \<open>Registration\<close>










subsection \<open>Typing snapshots\<close>

lemma typing_effects:
  "e \<in> set (snd (typing st s room b)) \<Longrightarrow>
     \<exists>r. e = Emit (ToRoom r) ''typing_users'' (TypingP (map snd (typingUsers (fst (typing st s room b)))))"
  by (auto simp add: typing_def Let_def split: option.splits)

lemma disconnect_typing:
  "Emit t ''typing_users'' p \<in> set (snd (disconnect st s)) \<Longrightarrow>
     p = TypingP (map snd (typingUsers (fst (disconnect st s))))"
  by (auto simp add: disconnect_def Let_def split: option.splits)

lemma no_typing_event:
  "Emit t ''typing_users'' p \<notin> set (snd (registerUser st s name))"
  "Emit t ''typing_users'' p \<notin> set (snd (join_room st s r))"
  "Emit t ''typing_users'' p \<notin> set (snd (leave_room st s r))"
  "Emit t ''typing_users'' p \<notin> set (snd (send_message st s pl a i ts))"
  "Emit t ''typing_users'' p \<notin> set (snd (private_message st s to txt furl a i ts))"
  "Emit t ''typing_users'' p \<notin> set (snd (message_read st i u))"
  "Emit t ''typing_users'' p \<notin> set (snd (message_reaction st i k u))"
  "Emit t ''typing_users'' p \<notin> set (snd (load_older st s room bf l a))"
  by (auto simp add: registerUser_def join_room_def leave_room_def send_message_def
        private_message_def message_read_def message_reaction_def load_older_def ack_with_def
        Let_def split: option.splits if_splits)

text \<open>
  Claim C9, as amended. Every \<open>typing_users\<close> event that a handler emits carries the full
  current list of typing display names, a complete snapshot and never a delta; the list is
  that of all connections, whatever room the event is emitted to.
\<close>

theorem typing_snapshot_complete:
  assumes "Emit t ''typing_users'' p \<in> set (snd (step st ev))"
  shows "p = TypingP (map snd (typingUsers (fst (step st ev))))"
proof (cases ev)
  case (Typing s room b)
  then show ?thesis using assms typing_effects [of "Emit t ''typing_users'' p" st s room b] by simp
next
  case (Disconnect s)
  then show ?thesis using assms disconnect_typing by simp
next
  case (Connect s tok)
  then show ?thesis using assms no_typing_event(1)
    by (simp add: connect_def Let_def split: option.splits if_splits)
next
  case (UserJoin s name)
  then show ?thesis using assms no_typing_event(1)
    by (simp add: user_join_def split: if_splits)
qed (use assms no_typing_event in simp_all)

lemmas typing1_defs = typing1_def init_def connect_def user_join_def registerUser_def
  join_room_def socket_join_def set_add_def sockets_of_def room_members_def getUserList_def
  typing_def Let_def

lemma typing1_facts:
  "map_of (users typing1) ''b1'' = Some \<lparr>username = ''bob'', uid = ''b1''\<rparr>"
  "typingUsers typing1 = [(''a1'', ''alice'')]"
  "sio_rooms typing1 ''b'' = {''b1''}"
  by (simp_all add: typing1_defs)

text \<open>
  Claim C9 as stated fails: alice signalled typing for room \<open>a\<close> and is not in room \<open>b\<close>;
  when bob starts typing in room \<open>b\<close>, the list sent to room \<open>b\<close> names alice too.
\<close>

theorem typing_other_room_counterexample:
  "''a1'' \<notin> sio_rooms typing1 ''b''
   \<and> snd (typing typing1 ''b1'' (Some ''b'') True)
       = [Emit (ToRoom ''b'') ''typing_users'' (TypingP [''alice'', ''bob''])]"
  by (simp add: typing1_facts typing_def Let_def)

theorem typing_snapshot_complete_witness:
  "Emit (ToRoom ''b'') ''typing_users'' (TypingP [''alice'', ''bob''])
     \<in> set (snd (step typing1 (Typing ''b1'' (Some ''b'') True)))
   \<and> TypingP [''alice'', ''bob'']
       = TypingP (map snd (typingUsers (fst (step typing1 (Typing ''b1'' (Some ''b'') True)))))"
proof -
  have h: "Emit (ToRoom ''b'') ''typing_users'' (TypingP [''alice'', ''bob''])
             \<in> set (snd (step typing1 (Typing ''b1'' (Some ''b'') True)))"
    by (simp add: typing1_facts typing_def Let_def)
  show ?thesis
    using h typing_snapshot_complete [OF h] by simp
qed

subsection \<open>Retention of messages\<close>













lemma chat_messages: "messages chat = []"
  by (simp add: chat_defs)

lemma run_append: "run st (xs @ ys) = run (run st xs) ys"
  by (induction xs arbitrary: st) simp_all

lemma old_send_step:
  assumes "map_of (users st) ''a1'' = Some \<lparr>username = ''alice'', uid = ''a1''\<rparr>"
    and "length (messages st) < 2000"
  shows "messages (fst (step st (old_send i))) = messages st @ [old_message i]"
    and "users (fst (step st (old_send i))) = users st"
  using assms
  by (simp_all add: old_send_def old_message_def send_message_def createMessage_def hi_def
        or_null_def or_default_def Let_def)

lemma run_old_sends:
  "n \<le> 2000 \<Longrightarrow>
     messages (run chat (map old_send [0..<n])) = map old_message [0..<n]
     \<and> users (run chat (map old_send [0..<n])) = users chat"
proof (induction n)
  case 0
  then show ?case by (simp add: chat_messages)
next
  case (Suc n)
  then have IH: "messages (run chat (map old_send [0..<n])) = map old_message [0..<n]"
    "users (run chat (map old_send [0..<n])) = users chat"
    by simp_all
  have u: "map_of (users (run chat (map old_send [0..<n]))) ''a1''
           = Some \<lparr>username = ''alice'', uid = ''a1''\<rparr>"
    using IH(2) chat_users by simp
  have l: "length (messages (run chat (map old_send [0..<n]))) < 2000"
    using IH(1) Suc.prems by simp
  show ?case
    using old_send_step [OF u l, of n] IH by (simp add: run_append)
qed







subsection \<open>Persistence before fan-out\<close>












text \<open>The message that a send persists is the last of the collection afterwards.\<close>

lemma persisted_is_stored:
  "Persist m \<in> set (snd (send_message st s pl a i ts)) \<Longrightarrow>
     m = last (messages (fst (send_message st s pl a i ts)))"
  "Persist m \<in> set (snd (private_message st s to txt furl a i ts)) \<Longrightarrow>
     m = last (messages (fst (private_message st s to txt furl a i ts)))"
  by (auto simp add: send_message_def private_message_def ack_with_def Let_def last_tl_snoc
        split: option.splits if_splits)




subsection \<open>Read receipts\<close>

lemma find_update_first:
  "find P xs = Some m \<Longrightarrow> P (f m) \<Longrightarrow> find P (update_first P f xs) = Some (f m)"
  by (induction xs) (auto split: if_splits)

lemma update_first_id:
  "find P xs = Some m \<Longrightarrow> f m = m \<Longrightarrow> update_first P f xs = xs"
  by (induction xs) (auto split: if_splits)

text \<open>A second read receipt of the same reader for the same message leaves the state as it is.\<close>

lemma message_read_again:
  "fst (message_read (fst (message_read st i u)) i u) = fst (message_read st i u)"
proof (cases "find (has_id i) (messages st)")
  case None
  then show ?thesis by (simp add: message_read_def)
next
  case (Some m)
  show ?thesis
  proof (cases "u \<in> set (readBy m)")
    case True
    then show ?thesis using Some by (simp add: message_read_def Let_def)
  next
    case False
    let ?f = "\<lambda>m. m\<lparr>readBy := readBy m @ [u]\<rparr>"
    have "find (has_id i) (update_first (has_id i) ?f (messages st)) = Some (?f m)"
      using Some by (intro find_update_first) (auto simp add: has_id_def dest: find_Some_iff [THEN iffD1])
    then show ?thesis using Some False by (simp add: message_read_def Let_def)
  qed
qed

text \<open>
  The in-memory handler addresses the read receipt to the sender's connections for a
  private message and to the room otherwise.
\<close>

lemma message_read_targets:
  "find (has_id i) (messages st) = Some m \<Longrightarrow>
     snd (message_read st i u) =
       (if isPrivate m
        then map (\<lambda>r. Emit (ToRoom r) ''message_read'' (ReadP i u)) (sockets_of st (sender m))
        else [Emit (ToRoom (if roomId m = [] then ''global'' else roomId m)) ''message_read''
                (ReadP i u)])"
  by (simp add: message_read_def Let_def)

text \<open>
  The store-backed handler emits only when it has added the reader: once the reader is
  saved, a further read receipt changes nothing and no event reaches a client. What it
  emits goes to every connection.
\<close>

lemma message_read2_again:
  "message_read2 db sock i True True = (db', evs) \<Longrightarrow>
     fst (message_read2 db' sock i f s) = db'
     \<and> filter reaches_client (snd (message_read2 db' sock i f s)) = []"
  by (auto simp add: message_read2_def Let_def split: option.splits if_splits)

lemma message_read2_first:
  "db i = Some msg \<Longrightarrow> senderIdent sock \<notin> set (d_readBy msg) \<Longrightarrow>
     snd (message_read2 db sock i True True)
       = [Emit Broadcast ''message_read'' (Read2P i (senderIdent sock))]"
  by (simp add: message_read2_def Let_def)

lemmas sent_defs = sent_def send_message_def createMessage_def hi_def or_null_def
  or_default_def ack_with_def

lemma sent_messages:
  "messages sent =
     [\<lparr>msg_id = ''m1'', msg_text = Some ''hi'', fileUrl = None, sender = ''alice'',
       senderId = ''a1'', roomId = ''general'', isPrivate = False, toUser = None,
       timestamp = ''t1'', readBy = [], reactions = []\<rparr>]"
  by (simp add: sent_defs chat_users chat_messages Let_def)

lemma read_once_messages:
  "messages read_once =
     [\<lparr>msg_id = ''m1'', msg_text = Some ''hi'', fileUrl = None, sender = ''alice'',
       senderId = ''a1'', roomId = ''general'', isPrivate = False, toUser = None,
       timestamp = ''t1'', readBy = [''bob''], reactions = []\<rparr>]"
  by (simp add: read_once_def message_read_def sent_messages has_id_def Let_def)

text \<open>
  Claim C5 at the failing input. On the in-memory server bob marks the room message
  \<open>m1\<close> read a second time: \<open>readBy\<close> stays as it is, but \<open>message_read\<close> is emitted
  to the room again. On the store-backed server a first read receipt is emitted to every
  connection, not to the message's room.
\<close>

theorem read_twice_notifies_again:
  "map readBy (messages read_once) = [[''bob'']]
   \<and> fst (message_read read_once ''m1'' ''bob'') = read_once
   \<and> snd (message_read read_once ''m1'' ''bob'')
       = [Emit (ToRoom ''general'') ''message_read'' (ReadP ''m1'' ''bob'')]
   \<and> snd (message_read2 [''65f0'' \<mapsto> stored_doc] guest ''65f0'' True True)
       = [Emit Broadcast ''message_read'' (Read2P ''65f0'' ''s1'')]"
proof -
  have a: "fst (message_read read_once ''m1'' ''bob'') = read_once"
    unfolding read_once_def by (rule message_read_again)
  have b: "snd (message_read read_once ''m1'' ''bob'')
           = [Emit (ToRoom ''general'') ''message_read'' (ReadP ''m1'' ''bob'')]"
    by (simp add: message_read_def read_once_messages has_id_def Let_def)
  have c: "snd (message_read2 [''65f0'' \<mapsto> stored_doc] guest ''65f0'' True True)
           = [Emit Broadcast ''message_read'' (Read2P ''65f0'' ''s1'')]"
    by (simp add: message_read2_def stored_doc_def guest_def senderIdent_def or_null_def Let_def)
  show ?thesis using a b c by (simp add: read_once_messages)
qed


subsection \<open>Reactions\<close>

lemma has_id_toggle [simp]: "has_id i (toggle k u m) = has_id i m"
  by (simp add: has_id_def toggle_def Let_def)













text \<open>
  The stored representation may differ after the two applications: a kind that had no
  entry keeps an empty list, and a principal that was removed and added again moves to
  the end of its list.
\<close>

lemma toggle_twice_representation:
  "reactions m = [] \<Longrightarrow> reactions (toggle k u (toggle k u m)) = [(k, [])]"
  by (simp add: toggle_def reaction_list_def Let_def)



lemma reaction_list_readBy [simp]:
  "reaction_list (m\<lparr>readBy := r\<rparr>) k = reaction_list m k"
  by (simp add: reaction_list_def)













subsection \<open>Pagination\<close>

lemma js_slice_last:
  "0 < l \<Longrightarrow> js_slice xs (- l) None = drop (length xs - nat l) xs"
  by (simp add: js_slice_def Let_def nat_diff_distrib' max_def)

lemma js_slice_before:
  assumes "0 \<le> l" and "idx \<le> length xs"
  shows "js_slice xs (max 0 (int idx - l)) (Some (int idx)) = drop (idx - nat l) (take idx xs)"
proof -
  have k: "nat (min (max 0 (int idx - l)) (int (length xs))) = idx - nat l"
    using assms by (simp add: max_def min_def nat_diff_distrib')
  have e: "min (int idx) (int (length xs)) = int idx"
    using assms by simp
  have "nat (int idx - min (max 0 (int idx - l)) (int (length xs))) = idx - (idx - nat l)"
    using assms by (simp add: max_def min_def)
  then show ?thesis
    using assms k e by (simp add: js_slice_def Let_def drop_take)
qed

lemma findIndex_Some:
  "findIndex P xs = Some i \<Longrightarrow> i < length xs \<and> P (xs ! i) \<and> (\<forall>j<i. \<not> P (xs ! j))"
proof (induction xs arbitrary: i)
  case Nil
  then show ?case by simp
next
  case (Cons x xs)
  show ?case
  proof (cases "P x")
    case True
    then show ?thesis using Cons.prems by simp
  next
    case False
    then obtain i' where i': "findIndex P xs = Some i'" "i = Suc i'"
      using Cons.prems by auto
    then show ?thesis
      using Cons.IH [OF i'(1)] False by (auto simp add: less_Suc_eq_0_disj)
  qed
qed

lemma findIndex_None: "findIndex P xs = None \<longleftrightarrow> (\<forall>x\<in>set xs. \<not> P x)"
  by (induction xs) auto

text \<open>There is no cursor index when the request has no cursor or no message of the history has its id.\<close>

lemma cursor_index_None:
  "cursor_index list beforeId = None \<longleftrightarrow>
     (or_null beforeId = None \<or> (\<exists>b. or_null beforeId = Some b \<and> (\<forall>m\<in>set list. msg_id m \<noteq> b)))"
  by (auto simp add: cursor_index_def findIndex_None has_id_def split: option.splits)

text \<open>
  For a positive page size: the page is the last \<open>limit\<close> messages of the room's
  history, or with a cursor that is found the last \<open>limit\<close> messages before it, in the
  order of the history; it has at most \<open>limit\<close> messages.
\<close>

lemma page_positive:
  assumes "0 < limit"
  shows "page msgs room beforeId limit =
           (case cursor_index (history msgs room) beforeId of
              None \<Rightarrow> drop (length (history msgs room) - nat limit) (history msgs room)
            | Some idx \<Rightarrow> drop (idx - nat limit) (take idx (history msgs room)))"
    and "length (page msgs room beforeId limit) \<le> nat limit"
proof -
  show eq: "page msgs room beforeId limit =
           (case cursor_index (history msgs room) beforeId of
              None \<Rightarrow> drop (length (history msgs room) - nat limit) (history msgs room)
            | Some idx \<Rightarrow> drop (idx - nat limit) (take idx (history msgs room)))"
  proof (cases "cursor_index (history msgs room) beforeId")
    case None
    then show ?thesis
      using assms
      by (auto simp add: page_def cursor_index_def history_def Let_def js_slice_last
            split: option.splits)
  next
    case (Some idx)
    then obtain b where b: "or_null beforeId = Some b"
      "findIndex (has_id b) (history msgs room) = Some idx"
      by (auto simp add: cursor_index_def split: option.splits)
    then have "idx \<le> length (history msgs room)"
      using findIndex_Some [OF b(2)] by simp
    then show ?thesis
      using assms b Some js_slice_before [of limit idx "history msgs room"]
      by (simp add: page_def history_def Let_def)
  qed
  show "length (page msgs room beforeId limit) \<le> nat limit"
    unfolding eq using assms by (auto split: option.splits)
qed

text \<open>When the cursor is the oldest message of the history, the page is empty.\<close>

lemma page_no_older:
  "cursor_index (history msgs room) beforeId = Some 0 \<Longrightarrow> page msgs room beforeId limit = []"
  by (auto simp add: page_def cursor_index_def history_def js_slice_def Let_def
        split: option.splits)

lemma three_messages: "messages three = map old_message [0..<3]"
  unfolding three_def using run_old_sends [of 3] by simp

lemma three_history: "history (messages three) ''general'' = map old_message [0..<3]"
  by (simp add: history_def three_messages old_message_def upt_rec)

text \<open>
  Claim C8 at the failing input. The request \<open>load_older\<close> with the page size \<open>0\<close>
  and no cursor, on a room with three stored messages, is answered with all three: the
  handler computes \<open>list.slice(-limit)\<close>, and \<open>slice(-0)\<close> is the whole list. With a
  cursor that is found, the same page size gives the empty page.
\<close>

theorem page_size_zero_returns_all:
  "snd (load_older three ''a1'' (Some ''general'') None (Some 0) True)
     = [Ack ''a1'' (AckMessagesP (messages three))]
   \<and> length (messages three) = 3
   \<and> page (messages three) ''general'' (Some ''xxx'') 0 = []"
proof -
  have h: "filter (\<lambda>m. roomId m = ''general'' \<and> \<not> isPrivate m) (messages three)
           = map old_message [0..<3]"
    using three_history by (simp add: history_def)
  have a: "page (messages three) ''general'' None 0 = map old_message [0..<3]"
    unfolding page_def h by (simp add: js_slice_def or_null_def Let_def)
  have "findIndex (has_id ''xxx'') (map old_message [0..<3]) = Some 2"
    by (simp add: upt_rec has_id_def old_message_def)
  then have b: "page (messages three) ''general'' (Some ''xxx'') 0 = []"
    unfolding page_def h by (simp add: js_slice_def or_null_def Let_def)
  show ?thesis
    using a b by (simp add: load_older_def ack_with_def three_messages)
qed

end
